theory Spec2Isabelle
  imports Complex_Main "HOL-Library.AList"
begin

section \<open>The game server of src/server.js\<close>

text \<open>
  The class \<open>GameServer\<close> keeps two JavaScript \<open>Map\<close>s (\<open>games\<close> and \<open>players\<close>) and arms
  its countdowns with \<open>setTimeout\<close>. A JavaScript \<open>Map\<close> is modelled as an association list
  (\<open>Map.set\<close> is \<open>AList.update\<close>: an existing key keeps its position, a new key goes to
  the end; \<open>Map.delete\<close> is \<open>AList.delete\<close>; \<open>Map.get\<close> is \<open>map_of\<close>). Identifiers are
  strings. JavaScript numbers are modelled as exact rationals: sums and products are
  exact where the source rounds to a double, so the model agrees with the source on
  integers up to \<open>2^53\<close>, and a statement about a computed number is made for that range
  only. The timer queue of the runtime is part of the state: \<open>setTimeout\<close> allocates a
  fresh handle and records the callback, \<open>clearTimeout\<close> removes the handle, and a
  pending handle may fire at any later step (the model does not track when a timer is
  due). \<open>Date.now()\<close> reads the field \<open>now\<close>, taken as constant during one operation.
  Broadcasts (\<open>io.to(gameId).emit\<close>) are appended to the list \<open>emitted\<close>; console output is
  left out.
\<close>

subsection \<open>Data\<close>

type_synonym handle = nat

datatype callback =
    CbEndGame string
  | CbEliminatePlayer string string
  | CbChaseTimeout string string string
  | CbCleanupGame string

record timeout =
  callback :: callback
  delay :: rat

datatype player_status = Alive | EliminationRisk | Eliminated

datatype game_status = Waiting | Playing | Ended

record player =
  playerId :: string
  playerName :: string
  role :: string
  ability :: string
  socketId :: string
  status :: player_status
  joinedAt :: int
  eliminatedAt :: "int option"
  eliminationReason :: "string option"

text \<open>The entries of \<open>this.players\<close>, keyed by socket id.\<close>

record binding =
  b_socketId :: string
  b_playerId :: string
  b_playerName :: string
  b_role :: string
  b_ability :: string
  b_gameId :: string
  b_joinedAt :: int

record settings =
  gameDuration :: rat
  eliminationRiskDuration :: rat
  chaseCountdown :: rat
  mercenaryMultiplier :: rat
  ghostChaseCountdown :: rat

text \<open>The \<open>settings\<close> argument of \<open>getOrCreateGame\<close>: an object in which any field may be absent.\<close>

record settings_arg =
  arg_gameDuration :: "rat option"
  arg_eliminationRiskDuration :: "rat option"
  arg_chaseCountdown :: "rat option"
  arg_mercenaryMultiplier :: "rat option"
  arg_ghostChaseCountdown :: "rat option"

record timers =
  gameTimer :: "handle option"
  eliminationRiskTimers :: "(string \<times> handle) list"
  chaseTimers :: "(string \<times> handle) list"

record game =
  game_id :: string
  players :: "(string \<times> player) list"
  game_status :: game_status
  game_settings :: settings
  timers :: timers
  startTime :: "int option"
  endTime :: "rat option"
  createdAt :: int
  endedAt :: "int option"
  endReason :: "string option"

datatype event =
    GameTimerStarted string rat int rat
  | EliminationRiskStarted string string rat int rat bool
  | EliminationRiskStopped string string int
  | ChaseCountdownStarted string string string rat int rat bool
  | ChaseCountdownStopped string string string int
  | ChaseTimeoutEvent string string string int
  | PlayerEliminated string string string int
  | GameEnded string "string option" int
  | PlayerDisconnected string string int

record server =
  games :: "(string \<times> game) list"
  server_players :: "(string \<times> binding) list"
  pending :: "(handle \<times> timeout) list"
  next_handle :: handle
  now :: int
  emitted :: "event list"

definition init :: server where
  "init = \<lparr>games = [], server_players = [], pending = [], next_handle = 0, now = 0, emitted = []\<rparr>"

subsection \<open>Runtime primitives\<close>

definition setTimeout :: "server \<Rightarrow> callback \<Rightarrow> rat \<Rightarrow> handle \<times> server" where
  "setTimeout s cb d =
     (next_handle s,
      s\<lparr>pending := pending s @ [(next_handle s, \<lparr>callback = cb, delay = d\<rparr>)],
        next_handle := Suc (next_handle s)\<rparr>)"

definition clearTimeout :: "server \<Rightarrow> handle \<Rightarrow> server" where
  "clearTimeout s h = s\<lparr>pending := AList.delete h (pending s)\<rparr>"

text \<open>\<open>timers.forEach(timer => clearTimeout(timer))\<close>\<close>

definition clearAll :: "server \<Rightarrow> handle list \<Rightarrow> server" where
  "clearAll s hs = fold (\<lambda>h t. clearTimeout t h) hs s"

definition emit :: "server \<Rightarrow> event \<Rightarrow> server" where
  "emit s e = s\<lparr>emitted := emitted s @ [e]\<rparr>"

text \<open>Writing through the reference to a game object that \<open>this.games\<close> holds under \<open>gameId\<close>.\<close>

definition set_game :: "server \<Rightarrow> string \<Rightarrow> game \<Rightarrow> server" where
  "set_game s gameId g = s\<lparr>games := AList.update gameId g (games s)\<rparr>"

text \<open>\<open>x || d\<close> on an optional number: an absent value and \<open>0\<close> are both falsy.\<close>

definition js_or :: "rat option \<Rightarrow> rat \<Rightarrow> rat" where
  "js_or x d = (case x of None \<Rightarrow> d | Some v \<Rightarrow> if v = 0 then d else v)"

text \<open>The template literal \<open>`${hunterId}_${survivorId}`\<close>.\<close>

definition timerKey :: "string \<Rightarrow> string \<Rightarrow> string" where
  "timerKey hunterId survivorId = hunterId @ ''_'' @ survivorId"

subsection \<open>Operations of \<open>GameServer\<close>\<close>

text \<open>The object spread \<open>...settings\<close> at the end of the literal: every field present
  in the argument overwrites the one written before it.\<close>

definition spread :: "settings_arg \<Rightarrow> settings \<Rightarrow> settings" where
  "spread a st =
     \<lparr>gameDuration = (case arg_gameDuration a of Some v \<Rightarrow> v | None \<Rightarrow> gameDuration st),
      eliminationRiskDuration =
        (case arg_eliminationRiskDuration a of Some v \<Rightarrow> v | None \<Rightarrow> eliminationRiskDuration st),
      chaseCountdown = (case arg_chaseCountdown a of Some v \<Rightarrow> v | None \<Rightarrow> chaseCountdown st),
      mercenaryMultiplier =
        (case arg_mercenaryMultiplier a of Some v \<Rightarrow> v | None \<Rightarrow> mercenaryMultiplier st),
      ghostChaseCountdown =
        (case arg_ghostChaseCountdown a of Some v \<Rightarrow> v | None \<Rightarrow> ghostChaseCountdown st)\<rparr>"

definition build_settings :: "settings_arg \<Rightarrow> settings" where
  "build_settings a =
     spread a
       \<lparr>gameDuration = js_or (arg_gameDuration a) 600000,
        eliminationRiskDuration = js_or (arg_eliminationRiskDuration a) 100000,
        chaseCountdown = js_or (arg_chaseCountdown a) 5000,
        mercenaryMultiplier = 3,
        ghostChaseCountdown = 3000\<rparr>"

text \<open>The default \<open>settings = {}\<close>.\<close>

definition no_settings :: settings_arg where
  "no_settings =
     \<lparr>arg_gameDuration = None, arg_eliminationRiskDuration = None, arg_chaseCountdown = None,
      arg_mercenaryMultiplier = None, arg_ghostChaseCountdown = None\<rparr>"

definition new_game :: "server \<Rightarrow> string \<Rightarrow> settings_arg \<Rightarrow> game" where
  "new_game s gameId a =
     \<lparr>game_id = gameId, players = [], game_status = Waiting,
      game_settings = build_settings a,
      timers = \<lparr>gameTimer = None, eliminationRiskTimers = [], chaseTimers = []\<rparr>,
      startTime = None, endTime = None, createdAt = now s, endedAt = None, endReason = None\<rparr>"

definition getOrCreateGame :: "server \<Rightarrow> string \<Rightarrow> settings_arg \<Rightarrow> game \<times> server" where
  "getOrCreateGame s gameId a =
     (case map_of (games s) gameId of
        Some g \<Rightarrow> (g, s)
      | None \<Rightarrow> (new_game s gameId a, set_game s gameId (new_game s gameId a)))"

definition joinGame ::
  "server \<Rightarrow> string \<Rightarrow> string \<Rightarrow> string \<Rightarrow> string \<Rightarrow> string \<Rightarrow> string \<Rightarrow> game \<times> server" where
  "joinGame s sock gameId pid pname prole pability =
     (case getOrCreateGame s gameId no_settings of (g, s1) \<Rightarrow>
        let s2 = s1\<lparr>server_players :=
                    AList.update sock
                      \<lparr>b_socketId = sock, b_playerId = pid, b_playerName = pname, b_role = prole,
                       b_ability = pability, b_gameId = gameId, b_joinedAt = now s\<rparr>
                      (server_players s1)\<rparr>;
            g' = g\<lparr>players :=
                    AList.update pid
                      \<lparr>playerId = pid, playerName = pname, role = prole, ability = pability,
                       socketId = sock, status = Alive, joinedAt = now s,
                       eliminatedAt = None, eliminationReason = None\<rparr>
                      (players g)\<rparr>
        in (g', set_game s2 gameId g'))"

definition cleanupGame :: "server \<Rightarrow> string \<Rightarrow> server" where
  "cleanupGame s gameId =
     (case map_of (games s) gameId of
        None \<Rightarrow> s
      | Some g \<Rightarrow>
          s\<lparr>server_players := filter (\<lambda>(sock, b). b_gameId b \<noteq> gameId) (server_players s),
            games := AList.delete gameId (games s)\<rparr>)"

definition endGame :: "server \<Rightarrow> string \<Rightarrow> string option \<Rightarrow> bool \<times> server" where
  "endGame s gameId reason =
     (case map_of (games s) gameId of
        None \<Rightarrow> (False, s)
      | Some g \<Rightarrow>
          let s1 = (case gameTimer (timers g) of Some h \<Rightarrow> clearTimeout s h | None \<Rightarrow> s);
              s2 = clearAll s1 (map snd (eliminationRiskTimers (timers g)));
              s3 = clearAll s2 (map snd (chaseTimers (timers g)));
              g' = g\<lparr>game_status := Ended, endedAt := Some (now s), endReason := reason,
                     timers := \<lparr>gameTimer = None, eliminationRiskTimers = [], chaseTimers = []\<rparr>\<rparr>;
              s4 = emit (set_game s3 gameId g') (GameEnded gameId reason (now s))
          in (True, snd (setTimeout s4 (CbCleanupGame gameId) 300000)))"

text \<open>\<open>Array.from(game.players.values()).filter(p => p.role === 'survivor' && p.status !== 'eliminated')\<close>\<close>

definition aliveSurvivors :: "game \<Rightarrow> player list" where
  "aliveSurvivors g =
     filter (\<lambda>p. role p = ''survivor'' \<and> status p \<noteq> Eliminated) (map snd (players g))"

definition checkGameEndConditions :: "server \<Rightarrow> string \<Rightarrow> server" where
  "checkGameEndConditions s gameId =
     (case map_of (games s) gameId of
        None \<Rightarrow> s
      | Some g \<Rightarrow>
          if game_status g \<noteq> Playing then s
          else if length (aliveSurvivors g) = 0
               then snd (endGame s gameId (Some ''all_survivors_eliminated''))
               else s)"

text \<open>The default parameter \<open>reason = 'unknown'\<close>.\<close>

definition reason_or_unknown :: "string option \<Rightarrow> string" where
  "reason_or_unknown reason = (case reason of None \<Rightarrow> ''unknown'' | Some r \<Rightarrow> r)"

definition eliminatePlayer :: "server \<Rightarrow> string \<Rightarrow> string \<Rightarrow> string option \<Rightarrow> bool \<times> server" where
  "eliminatePlayer s gameId pid reason =
     (case map_of (games s) gameId of
        None \<Rightarrow> (False, s)
      | Some g \<Rightarrow>
         (case map_of (players g) pid of
            None \<Rightarrow> (False, s)
          | Some p \<Rightarrow>
              let s1 = (case map_of (eliminationRiskTimers (timers g)) pid of
                          Some h \<Rightarrow> clearTimeout s h | None \<Rightarrow> s);
                  rts = (case map_of (eliminationRiskTimers (timers g)) pid of
                          Some h \<Rightarrow> AList.delete pid (eliminationRiskTimers (timers g))
                        | None \<Rightarrow> eliminationRiskTimers (timers g));
                  p' = p\<lparr>status := Eliminated, eliminatedAt := Some (now s),
                         eliminationReason := Some (reason_or_unknown reason)\<rparr>;
                  g' = g\<lparr>timers := (timers g)\<lparr>eliminationRiskTimers := rts\<rparr>,
                         players := AList.update pid p' (players g)\<rparr>;
                  s2 = emit (set_game s1 gameId g')
                         (PlayerEliminated gameId pid (reason_or_unknown reason) (now s))
              in (True, checkGameEndConditions s2 gameId)))"

definition startGameTimer :: "server \<Rightarrow> string \<Rightarrow> rat option \<Rightarrow> bool \<times> server" where
  "startGameTimer s gameId customDuration =
     (case map_of (games s) gameId of
        None \<Rightarrow> (False, s)
      | Some g \<Rightarrow>
          let s1 = (case gameTimer (timers g) of Some h \<Rightarrow> clearTimeout s h | None \<Rightarrow> s);
              duration = js_or customDuration (gameDuration (game_settings g))
          in (case setTimeout s1 (CbEndGame gameId) duration of (timer, s2) \<Rightarrow>
                let g' = g\<lparr>startTime := Some (now s), endTime := Some (of_int (now s) + duration),
                           game_status := Playing,
                           timers := (timers g)\<lparr>gameTimer := Some timer\<rparr>\<rparr>
                in (True,
                    emit (set_game s2 gameId g')
                      (GameTimerStarted gameId duration (now s) (of_int (now s) + duration)))))"

definition startEliminationRiskTimer ::
  "server \<Rightarrow> string \<Rightarrow> string \<Rightarrow> rat option \<Rightarrow> bool \<times> server" where
  "startEliminationRiskTimer s gameId pid customDuration =
     (case map_of (games s) gameId of
        None \<Rightarrow> (False, s)
      | Some g \<Rightarrow>
         (case map_of (players g) pid of
            None \<Rightarrow> (False, s)
          | Some p \<Rightarrow>
              let duration0 = js_or customDuration (eliminationRiskDuration (game_settings g));
                  duration = (if ability p = ''MERCENARY''
                              then of_int \<lfloor>duration0 * mercenaryMultiplier (game_settings g)\<rfloor>
                              else duration0);
                  s1 = (case map_of (eliminationRiskTimers (timers g)) pid of
                          Some h \<Rightarrow> clearTimeout s h | None \<Rightarrow> s)
              in (case setTimeout s1 (CbEliminatePlayer gameId pid) duration of (timer, s2) \<Rightarrow>
                    let g' = g\<lparr>timers := (timers g)\<lparr>eliminationRiskTimers :=
                                   AList.update pid timer (eliminationRiskTimers (timers g))\<rparr>,
                               players := AList.update pid (p\<lparr>status := EliminationRisk\<rparr>) (players g)\<rparr>
                    in (True,
                        emit (set_game s2 gameId g')
                          (EliminationRiskStarted gameId pid duration (now s)
                             (of_int (now s) + duration) (ability p = ''MERCENARY''))))))"

definition stopEliminationRiskTimer :: "server \<Rightarrow> string \<Rightarrow> string \<Rightarrow> bool \<times> server" where
  "stopEliminationRiskTimer s gameId pid =
     (case map_of (games s) gameId of
        None \<Rightarrow> (False, s)
      | Some g \<Rightarrow>
         (case map_of (eliminationRiskTimers (timers g)) pid of
            None \<Rightarrow> (False, s)
          | Some h \<Rightarrow>
              let s1 = clearTimeout s h;
                  g' = g\<lparr>timers := (timers g)\<lparr>eliminationRiskTimers :=
                             AList.delete pid (eliminationRiskTimers (timers g))\<rparr>,
                         players := (case map_of (players g) pid of
                                       Some p \<Rightarrow> AList.update pid (p\<lparr>status := Alive\<rparr>) (players g)
                                     | None \<Rightarrow> players g)\<rparr>
              in (True,
                  emit (set_game s1 gameId g') (EliminationRiskStopped gameId pid (now s)))))"

definition startChaseCountdown ::
  "server \<Rightarrow> string \<Rightarrow> string \<Rightarrow> string \<Rightarrow> bool \<Rightarrow> bool \<times> server" where
  "startChaseCountdown s gameId hunterId survivorId isGhostAbility =
     (case map_of (games s) gameId of
        None \<Rightarrow> (False, s)
      | Some g \<Rightarrow>
          let duration = (if isGhostAbility then ghostChaseCountdown (game_settings g)
                          else chaseCountdown (game_settings g));
              s1 = (case map_of (chaseTimers (timers g)) (timerKey hunterId survivorId) of
                      Some h \<Rightarrow> clearTimeout s h | None \<Rightarrow> s)
          in (case setTimeout s1 (CbChaseTimeout gameId hunterId survivorId) duration of
                (timer, s2) \<Rightarrow>
                  let g' = g\<lparr>timers := (timers g)\<lparr>chaseTimers :=
                                 AList.update (timerKey hunterId survivorId) timer
                                   (chaseTimers (timers g))\<rparr>\<rparr>
                  in (True,
                      emit (set_game s2 gameId g')
                        (ChaseCountdownStarted gameId hunterId survivorId duration (now s)
                           (of_int (now s) + duration) isGhostAbility))))"

definition stopChaseCountdown :: "server \<Rightarrow> string \<Rightarrow> string \<Rightarrow> string \<Rightarrow> bool \<times> server" where
  "stopChaseCountdown s gameId hunterId survivorId =
     (case map_of (games s) gameId of
        None \<Rightarrow> (False, s)
      | Some g \<Rightarrow>
         (case map_of (chaseTimers (timers g)) (timerKey hunterId survivorId) of
            None \<Rightarrow> (False, s)
          | Some h \<Rightarrow>
              let s1 = clearTimeout s h;
                  g' = g\<lparr>timers := (timers g)\<lparr>chaseTimers :=
                             AList.delete (timerKey hunterId survivorId) (chaseTimers (timers g))\<rparr>\<rparr>
              in (True,
                  emit (set_game s1 gameId g')
                    (ChaseCountdownStopped gameId hunterId survivorId (now s)))))"

definition chaseTimeout :: "server \<Rightarrow> string \<Rightarrow> string \<Rightarrow> string \<Rightarrow> server" where
  "chaseTimeout s gameId hunterId survivorId =
     (case map_of (games s) gameId of
        None \<Rightarrow> s
      | Some g \<Rightarrow>
          let g' = g\<lparr>timers := (timers g)\<lparr>chaseTimers :=
                         AList.delete (timerKey hunterId survivorId) (chaseTimers (timers g))\<rparr>\<rparr>
          in emit (set_game s gameId g') (ChaseTimeoutEvent gameId hunterId survivorId (now s)))"

definition disconnectPlayer :: "server \<Rightarrow> string \<Rightarrow> server" where
  "disconnectPlayer s sock =
     (case map_of (server_players s) sock of
        None \<Rightarrow> s
      | Some b \<Rightarrow>
          let s3 = (case map_of (games s) (b_gameId b) of
                      None \<Rightarrow> s
                    | Some g \<Rightarrow>
                        let s1 = (case map_of (eliminationRiskTimers (timers g)) (b_playerId b) of
                                    Some h \<Rightarrow> clearTimeout s h | None \<Rightarrow> s);
                            g' = g\<lparr>players := AList.delete (b_playerId b) (players g),
                                   timers := (timers g)\<lparr>eliminationRiskTimers :=
                                     AList.delete (b_playerId b) (eliminationRiskTimers (timers g))\<rparr>\<rparr>
                        in emit (set_game s1 (b_gameId b) g')
                             (PlayerDisconnected (b_gameId b) (b_playerId b) (now s)))
          in s3\<lparr>server_players := AList.delete sock (server_players s3)\<rparr>)"

subsection \<open>The event loop\<close>

text \<open>What a timer does when it fires: the closure given to \<open>setTimeout\<close>.\<close>

fun run_callback :: "server \<Rightarrow> callback \<Rightarrow> server" where
  "run_callback s (CbEndGame gameId) = snd (endGame s gameId (Some ''timeout''))"
| "run_callback s (CbEliminatePlayer gameId pid) =
     snd (eliminatePlayer s gameId pid (Some ''elimination_risk_timeout''))"
| "run_callback s (CbChaseTimeout gameId hunterId survivorId) =
     chaseTimeout s gameId hunterId survivorId"
| "run_callback s (CbCleanupGame gameId) = cleanupGame s gameId"

text \<open>The runtime takes a pending timer off its queue and runs its callback; a handle
  that is not pending (cleared, or fired before) does nothing.\<close>

definition fire :: "server \<Rightarrow> handle \<Rightarrow> server" where
  "fire s h =
     (case map_of (pending s) h of
        None \<Rightarrow> s
      | Some t \<Rightarrow> run_callback (s\<lparr>pending := AList.delete h (pending s)\<rparr>) (callback t))"

text \<open>One turn of the event loop: a call of a public method, a timer firing, or time passing.\<close>

datatype action =
    GetOrCreate string settings_arg
  | Join string string string string string string
  | StartGame string "rat option"
  | StartRisk string string "rat option"
  | StopRisk string string
  | StartChase string string string bool
  | StopChase string string string
  | Eliminate string string "string option"
  | EndGame string "string option"
  | Disconnect string
  | Fire handle
  | Tick nat

fun step :: "action \<Rightarrow> server \<Rightarrow> server" where
  "step (GetOrCreate gameId a) s = snd (getOrCreateGame s gameId a)"
| "step (Join sock gameId pid pname prole pability) s =
     snd (joinGame s sock gameId pid pname prole pability)"
| "step (StartGame gameId d) s = snd (startGameTimer s gameId d)"
| "step (StartRisk gameId pid d) s = snd (startEliminationRiskTimer s gameId pid d)"
| "step (StopRisk gameId pid) s = snd (stopEliminationRiskTimer s gameId pid)"
| "step (StartChase gameId hunterId survivorId ghost) s =
     snd (startChaseCountdown s gameId hunterId survivorId ghost)"
| "step (StopChase gameId hunterId survivorId) s =
     snd (stopChaseCountdown s gameId hunterId survivorId)"
| "step (Eliminate gameId pid reason) s = snd (eliminatePlayer s gameId pid reason)"
| "step (EndGame gameId reason) s = snd (endGame s gameId reason)"
| "step (Disconnect sock) s = disconnectPlayer s sock"
| "step (Fire h) s = fire s h"
| "step (Tick n) s = s\<lparr>now := now s + int n\<rparr>"

fun run :: "action list \<Rightarrow> server \<Rightarrow> server" where
  "run [] s = s"
| "run (a # as) s = run as (step a s)"

text \<open>Whether the callback of handle \<open>h\<close> is executed while the actions run from \<open>s\<close>.\<close>

fun executes :: "action list \<Rightarrow> server \<Rightarrow> handle \<Rightarrow> bool" where
  "executes [] s h = False"
| "executes (a # as) s h =
     ((a = Fire h \<and> map_of (pending s) h \<noteq> None) \<or> executes as (step a s) h)"

subsection \<open>The specification's reading of the armed duration\<close>


subsection \<open>Timer handles\<close>

text \<open>A handle that was allocated and is not pending: its timer fired or was cleared.\<close>

definition cancelled :: "server \<Rightarrow> handle \<Rightarrow> bool" where
  "cancelled s h \<longleftrightarrow> h < next_handle s \<and> map_of (pending s) h = None"

text \<open>The handles a game holds in its three timer collections.\<close>

definition tracked :: "game \<Rightarrow> handle list" where
  "tracked g =
     (case gameTimer (timers g) of None \<Rightarrow> [] | Some h \<Rightarrow> [h]) @
     map snd (eliminationRiskTimers (timers g)) @ map snd (chaseTimers (timers g))"

text \<open>Invariants of the reachable states: every handle held by a game came from
  \<open>setTimeout\<close>; no handle is both an elimination-risk and a chase timer of a game; every
  socket binding names a registered game.\<close>

definition timers_allocated :: "server \<Rightarrow> bool" where
  "timers_allocated s \<longleftrightarrow>
     (\<forall>gameId g. map_of (games s) gameId = Some g \<longrightarrow>
        (\<forall>h \<in> set (tracked g). h < next_handle s))"

definition risk_chase_apart :: "server \<Rightarrow> bool" where
  "risk_chase_apart s \<longleftrightarrow>
     (\<forall>gameId g k k' h. map_of (games s) gameId = Some g \<longrightarrow>
        (k, h) \<in> set (eliminationRiskTimers (timers g)) \<longrightarrow>
        (k', h) \<notin> set (chaseTimers (timers g)))"

definition bindings_have_games :: "server \<Rightarrow> bool" where
  "bindings_have_games s \<longleftrightarrow>
     (\<forall>(sock, b) \<in> set (server_players s). map_of (games s) (b_gameId b) \<noteq> None)"

subsection \<open>Example runs\<close>

text \<open>A mercenary survivor \<open>p\<close> joins game \<open>g\<close> over socket \<open>s1\<close>; the game is then started,
  or ended.\<close>

definition example_player :: player where
  "example_player =
     \<lparr>playerId = ''p'', playerName = ''n'', role = ''survivor'', ability = ''MERCENARY'',
      socketId = ''s1'', status = Alive, joinedAt = 0, eliminatedAt = None,
      eliminationReason = None\<rparr>"

definition example_settings :: settings where
  "example_settings =
     \<lparr>gameDuration = 600000, eliminationRiskDuration = 100000, chaseCountdown = 5000,
      mercenaryMultiplier = 3, ghostChaseCountdown = 3000\<rparr>"

definition joined :: server where
  "joined = run [Join ''s1'' ''g'' ''p'' ''n'' ''survivor'' ''MERCENARY''] init"

definition joined_game :: game where
  "joined_game =
     \<lparr>game_id = ''g'', players = [(''p'', example_player)], game_status = Waiting,
      game_settings = example_settings,
      timers = \<lparr>gameTimer = None, eliminationRiskTimers = [], chaseTimers = []\<rparr>,
      startTime = None, endTime = None, createdAt = 0, endedAt = None, endReason = None\<rparr>"

definition playing :: server where
  "playing = run [Join ''s1'' ''g'' ''p'' ''n'' ''survivor'' ''MERCENARY'', StartGame ''g'' None] init"

definition playing_game :: game where
  "playing_game =
     joined_game\<lparr>game_status := Playing, startTime := Some 0, endTime := Some 600000,
       timers := \<lparr>gameTimer = Some 0, eliminationRiskTimers = [], chaseTimers = []\<rparr>\<rparr>"

definition ended :: server where
  "ended =
     run [Join ''s1'' ''g'' ''p'' ''n'' ''survivor'' ''MERCENARY'', EndGame ''g'' (Some ''manual'')] init"

definition ended_game :: game where
  "ended_game =
     joined_game\<lparr>game_status := Ended, endedAt := Some 0, endReason := Some ''manual''\<rparr>"

definition example_binding :: binding where
  "example_binding =
     \<lparr>b_socketId = ''s1'', b_playerId = ''p'', b_playerName = ''n'', b_role = ''survivor'',
      b_ability = ''MERCENARY'', b_gameId = ''g'', b_joinedAt = 0\<rparr>"

text \<open>The started game with an elimination-risk timer for \<open>p\<close> and a chase of \<open>p\<close> by \<open>h\<close>.\<close>

definition busy :: server where
  "busy =
     run [Join ''s1'' ''g'' ''p'' ''n'' ''survivor'' ''MERCENARY'', StartGame ''g'' None,
          StartRisk ''g'' ''p'' (Some 200), StartChase ''g'' ''h'' ''p'' False] init"

definition busy_game :: game where
  "busy_game =
     playing_game\<lparr>players := [(''p'', example_player\<lparr>status := EliminationRisk\<rparr>)],
       timers := \<lparr>gameTimer = Some 0, eliminationRiskTimers = [(''p'', 1)],
                  chaseTimers = [(''h_p'', 2)]\<rparr>\<rparr>"

text \<open>Game \<open>g\<close> is ended, an elimination-risk timer (handle 1) is started for \<open>p\<close> during the
  grace period, the deferred clean-up (handle 0) removes the game, and \<open>p\<close> joins a new
  game under the same id.\<close>

definition reopened :: server where
  "reopened =
     run [Join ''s1'' ''g'' ''p'' ''n'' ''survivor'' ''MERCENARY'', EndGame ''g'' None,
          StartRisk ''g'' ''p'' None, Fire 0,
          Join ''s1'' ''g'' ''p'' ''n'' ''survivor'' ''MERCENARY''] init"

section \<open>Properties\<close>

subsection \<open>Auxiliary facts\<close>

lemma clearAll_eq: "clearAll s hs = s\<lparr>pending := filter (\<lambda>p. fst p \<notin> set hs) (pending s)\<rparr>"
proof (induction hs arbitrary: s)
  case Nil
  then show ?case by (simp add: clearAll_def)
next
  case (Cons h hs)
  have "clearAll s (h # hs) = clearAll (clearTimeout s h) hs"
    by (simp add: clearAll_def)
  also have "\<dots> = (clearTimeout s h)
      \<lparr>pending := filter (\<lambda>p. fst p \<notin> set hs) (pending (clearTimeout s h))\<rparr>"
    by (rule Cons.IH)
  also have "\<dots> = s\<lparr>pending := filter (\<lambda>p. fst p \<notin> set (h # hs)) (pending s)\<rparr>"
    by (auto simp add: clearTimeout_def AList.delete_eq case_prod_beta
        intro!: arg_cong2[where f="\<lambda>a b. a\<lparr>pending := b\<rparr>"] filter_cong)
  finally show ?case .
qed

lemmas prim_defs = setTimeout_def clearTimeout_def clearAll_eq emit_def set_game_def

lemmas op_defs = getOrCreateGame_def joinGame_def cleanupGame_def endGame_def
  checkGameEndConditions_def eliminatePlayer_def startGameTimer_def
  startEliminationRiskTimer_def stopEliminationRiskTimer_def startChaseCountdown_def
  stopChaseCountdown_def chaseTimeout_def disconnectPlayer_def fire_def

lemmas example_defs = example_player_def example_settings_def joined_def joined_game_def
  playing_def playing_game_def ended_def ended_game_def busy_def busy_game_def
  example_binding_def init_def
  new_game_def
  build_settings_def spread_def no_settings_def js_or_def reason_or_unknown_def
  aliveSurvivors_def

lemma joined_eq:
  "joined = \<lparr>games = [(''g'', joined_game)],
     server_players = [(''s1'', \<lparr>b_socketId = ''s1'', b_playerId = ''p'', b_playerName = ''n'',
        b_role = ''survivor'', b_ability = ''MERCENARY'', b_gameId = ''g'', b_joinedAt = 0\<rparr>)],
     pending = [], next_handle = 0, now = 0, emitted = []\<rparr>"
  by (simp add: example_defs op_defs prim_defs Let_def)

lemma joined_has_game: "map_of (games joined) ''g'' = Some joined_game"
  by (simp add: joined_eq)

lemma playing_has_game: "map_of (games playing) ''g'' = Some playing_game"
  by code_simp

lemma ended_has_game: "map_of (games ended) ''g'' = Some ended_game"
  by code_simp

lemma busy_has_game: "map_of (games busy) ''g'' = Some busy_game"
  by code_simp

lemma example_game_has_player:
  "map_of (players joined_game) ''p'' = Some example_player"
  "map_of (players playing_game) ''p'' = Some example_player"
  "map_of (players ended_game) ''p'' = Some example_player"
  by (simp_all add: joined_game_def playing_game_def ended_game_def)

lemma playing_obs:
  "emitted playing = [GameTimerStarted ''g'' 600000 0 600000]" "now playing = 0"
  "next_handle playing = 1"
  by code_simp+

lemma busy_binding: "map_of (server_players busy) ''s1'' = Some example_binding"
  by code_simp

lemma busy_obs:
  "now busy = 0"
  "map_of (pending busy) 2 = Some \<lparr>callback = CbChaseTimeout ''g'' ''h'' ''p'', delay = 5000\<rparr>"
  by code_simp+

subsection \<open>Timer handles never come back\<close>

text \<open>A handle that was allocated and is no longer pending stays so: \<open>setTimeout\<close> only
  hands out new handles. Hence its callback is never executed later.\<close>

lemma cancelled_iff: "cancelled s h \<longleftrightarrow> h < next_handle s \<and> h \<notin> fst ` set (pending s)"
  by (simp add: cancelled_def map_of_eq_None_iff)

lemma cancelled_endGame: "cancelled s h \<Longrightarrow> cancelled (snd (endGame s gameId r)) h"
  by (auto simp add: cancelled_iff endGame_def prim_defs AList.delete_eq Let_def split: option.splits)

lemma cancelled_eliminatePlayer: "cancelled s h \<Longrightarrow> cancelled (snd (eliminatePlayer s gameId pid r)) h"
  by (auto simp add: cancelled_iff eliminatePlayer_def checkGameEndConditions_def endGame_def prim_defs AList.delete_eq Let_def split: option.splits)

lemma cancelled_chaseTimeout: "cancelled s h \<Longrightarrow> cancelled (chaseTimeout s gameId a b) h"
  by (auto simp add: cancelled_iff chaseTimeout_def prim_defs Let_def split: option.splits)

lemma cancelled_cleanupGame: "cancelled s h \<Longrightarrow> cancelled (cleanupGame s gameId) h"
  by (auto simp add: cancelled_iff cleanupGame_def split: option.splits)

lemma cancelled_fire: "cancelled s h \<Longrightarrow> cancelled (fire s k) h"
proof (cases "map_of (pending s) k")
  case None
  then show "cancelled s h \<Longrightarrow> cancelled (fire s k) h" by (simp add: fire_def)
next
  case (Some t)
  assume c: "cancelled s h"
  then have c': "cancelled (s\<lparr>pending := AList.delete k (pending s)\<rparr>) h"
    by (auto simp add: cancelled_iff AList.delete_eq)
  show "cancelled (fire s k) h"
    using Some c'
    by (cases "callback t")
       (simp_all add: fire_def cancelled_endGame cancelled_eliminatePlayer
          cancelled_chaseTimeout cancelled_cleanupGame)
qed

lemma cancelled_step: "cancelled s h \<Longrightarrow> cancelled (step a s) h"
proof (cases a)
  case (Fire k)
  then show "cancelled s h \<Longrightarrow> cancelled (step a s) h" by (simp add: cancelled_fire)
next
  case (Eliminate g p r)
  then show "cancelled s h \<Longrightarrow> cancelled (step a s) h" by (simp add: cancelled_eliminatePlayer)
next
  case (EndGame g r)
  then show "cancelled s h \<Longrightarrow> cancelled (step a s) h" by (simp add: cancelled_endGame)
qed (auto simp add: cancelled_iff getOrCreateGame_def joinGame_def startGameTimer_def
      startEliminationRiskTimer_def stopEliminationRiskTimer_def startChaseCountdown_def
      stopChaseCountdown_def disconnectPlayer_def prim_defs AList.delete_eq Let_def
      split: option.splits prod.splits)

lemma cancelled_run: "cancelled s h \<Longrightarrow> cancelled (run as s) h"
  by (induction as arbitrary: s) (simp_all add: cancelled_step)

lemma cancelled_never_executes: "cancelled s h \<Longrightarrow> \<not> executes as s h"
proof (induction as arbitrary: s)
  case Nil
  then show ?case by simp
next
  case (Cons a as)
  then show ?case by (auto simp add: cancelled_step) (simp add: cancelled_def)
qed

subsection \<open>Invariants of the reachable states\<close>

lemma set_tracked:
  "set (tracked g) = set_option (gameTimer (timers g)) \<union>
     snd ` set (eliminationRiskTimers (timers g)) \<union> snd ` set (chaseTimers (timers g))"
  by (auto simp add: tracked_def split: option.splits)

lemma in_update_cases: "x \<in> set (AList.update k v al) \<Longrightarrow> x = (k, v) \<or> x \<in> set al"
  by (induction al) (auto split: if_splits)

lemma snd_update_cases: "(a, h) \<in> set (AList.update k v al) \<Longrightarrow> h = v \<or> (a, h) \<in> set al"
  by (drule in_update_cases) auto

lemma in_delete_cases: "x \<in> set (AList.delete k al) \<Longrightarrow> x \<in> set al"
  by (simp add: AList.delete_eq)


lemma set_delete: "set (AList.delete k al) = {p \<in> set al. fst p \<noteq> k}"
  by (auto simp add: AList.delete_eq)

lemma timers_allocated_alt:
  "timers_allocated s \<longleftrightarrow>
     (\<forall>gameId g k h. map_of (games s) gameId = Some g \<longrightarrow>
        (gameTimer (timers g) = Some h \<or> (k, h) \<in> set (eliminationRiskTimers (timers g)) \<or>
         (k, h) \<in> set (chaseTimers (timers g))) \<longrightarrow> h < next_handle s)"
  unfolding timers_allocated_def set_tracked
  apply (rule iffI)
   apply (intro allI impI)
   apply (drule_tac x=gameId in spec, drule_tac x=g in spec)
   apply force
  apply (intro allI impI ballI)
  apply (drule_tac x=gameId in spec, drule_tac x=g in spec)
  apply (auto simp add: image_iff)
  done

lemma allocD:
  "timers_allocated s \<Longrightarrow> map_of (games s) gameId = Some g \<Longrightarrow> h \<in> set (tracked g) \<Longrightarrow>
   h < next_handle s"
  by (auto simp add: timers_allocated_def)

lemma timers_allocated_init: "timers_allocated init"
  by (simp add: timers_allocated_def init_def)

lemma timers_allocated_endGame:
  "timers_allocated s \<Longrightarrow> timers_allocated (snd (endGame s gameId r))"
  unfolding timers_allocated_alt
  by (auto simp add: endGame_def prim_defs Let_def update_conv' less_Suc_eq
      split: option.splits if_splits)

lemma timers_allocated_eliminatePlayer:
  "timers_allocated s \<Longrightarrow> timers_allocated (snd (eliminatePlayer s gameId pid r))"
  unfolding timers_allocated_alt
  by (auto simp add: eliminatePlayer_def checkGameEndConditions_def endGame_def prim_defs Let_def
      update_conv' set_delete less_Suc_eq split: option.splits if_splits)

lemma timers_allocated_chaseTimeout:
  "timers_allocated s \<Longrightarrow> timers_allocated (chaseTimeout s gameId a b)"
  unfolding timers_allocated_alt
  by (auto simp add: chaseTimeout_def prim_defs Let_def update_conv' set_delete
      split: option.splits if_splits)

lemma timers_allocated_cleanupGame:
  "timers_allocated s \<Longrightarrow> timers_allocated (cleanupGame s gameId)"
  unfolding timers_allocated_alt
  by (auto simp add: cleanupGame_def delete_conv' split: option.splits if_splits)

lemma timers_allocated_fire: "timers_allocated s \<Longrightarrow> timers_allocated (fire s k)"
proof (cases "map_of (pending s) k")
  case None
  then show "timers_allocated s \<Longrightarrow> timers_allocated (fire s k)" by (simp add: fire_def)
next
  case (Some t)
  assume c: "timers_allocated s"
  then have c': "timers_allocated (s\<lparr>pending := AList.delete k (pending s)\<rparr>)"
    by (simp add: timers_allocated_def)
  show "timers_allocated (fire s k)"
    using Some c'
    by (cases "callback t")
       (simp_all add: fire_def timers_allocated_endGame timers_allocated_eliminatePlayer
          timers_allocated_chaseTimeout timers_allocated_cleanupGame)
qed

lemma timers_allocated_step: "timers_allocated s \<Longrightarrow> timers_allocated (step a s)"
proof (cases a)
  case (Fire k)
  then show "timers_allocated s \<Longrightarrow> timers_allocated (step a s)"
    by (simp add: timers_allocated_fire)
next
  case (Eliminate g p r)
  then show "timers_allocated s \<Longrightarrow> timers_allocated (step a s)"
    by (simp add: timers_allocated_eliminatePlayer)
next
  case (EndGame g r)
  then show "timers_allocated s \<Longrightarrow> timers_allocated (step a s)"
    by (simp add: timers_allocated_endGame)
next
  case (Tick n)
  then show "timers_allocated s \<Longrightarrow> timers_allocated (step a s)"
    by (simp add: timers_allocated_def)
next
  case (GetOrCreate g st)
  then show "timers_allocated s \<Longrightarrow> timers_allocated (step a s)"
    unfolding timers_allocated_alt
    by (auto simp add: getOrCreateGame_def new_game_def prim_defs update_conv'
        split: option.splits if_splits)
next
  case (Join sock g p n r ab)
  then show "timers_allocated s \<Longrightarrow> timers_allocated (step a s)"
    unfolding timers_allocated_alt
    by (auto simp add: joinGame_def getOrCreateGame_def new_game_def prim_defs Let_def
        update_conv' split: option.splits if_splits)
next
  case (StartGame g d)
  then show "timers_allocated s \<Longrightarrow> timers_allocated (step a s)"
    unfolding timers_allocated_alt
    by (auto simp add: startGameTimer_def prim_defs Let_def update_conv' less_Suc_eq
        split: option.splits if_splits)
next
  case (StartRisk g p d)
  then show "timers_allocated s \<Longrightarrow> timers_allocated (step a s)"
    unfolding timers_allocated_alt
    by (auto simp add: startEliminationRiskTimer_def prim_defs Let_def update_conv'
        less_Suc_eq dest!: snd_update_cases split: option.splits if_splits)
next
  case (StopRisk g p)
  then show "timers_allocated s \<Longrightarrow> timers_allocated (step a s)"
    unfolding timers_allocated_alt
    by (auto simp add: stopEliminationRiskTimer_def prim_defs Let_def update_conv' set_delete
        split: option.splits if_splits)
next
  case (StartChase g h sv gh)
  then show "timers_allocated s \<Longrightarrow> timers_allocated (step a s)"
    unfolding timers_allocated_alt
    by (auto simp add: startChaseCountdown_def prim_defs Let_def update_conv'
        less_Suc_eq dest!: snd_update_cases split: option.splits if_splits)
next
  case (StopChase g h sv)
  then show "timers_allocated s \<Longrightarrow> timers_allocated (step a s)"
    unfolding timers_allocated_alt
    by (auto simp add: stopChaseCountdown_def prim_defs Let_def update_conv' set_delete
        split: option.splits if_splits)
next
  case (Disconnect sock)
  then show "timers_allocated s \<Longrightarrow> timers_allocated (step a s)"
    unfolding timers_allocated_alt
    by (auto simp add: disconnectPlayer_def prim_defs Let_def update_conv' set_delete
        split: option.splits if_splits)
qed

lemma timers_allocated_run: "timers_allocated s \<Longrightarrow> timers_allocated (run as s)"
  by (induction as arbitrary: s) (simp_all add: timers_allocated_step)

lemma risk_chase_apart_init: "risk_chase_apart init"
  by (simp add: risk_chase_apart_def init_def)

lemma apart_endGame:
  "risk_chase_apart s \<Longrightarrow> risk_chase_apart (snd (endGame s gameId r))"
  unfolding risk_chase_apart_def
  by (auto simp add: endGame_def prim_defs Let_def update_conv'
      split: option.splits if_splits)

lemma apart_eliminatePlayer:
  "risk_chase_apart s \<Longrightarrow> risk_chase_apart (snd (eliminatePlayer s gameId pid r))"
  unfolding risk_chase_apart_def
  by (auto simp add: eliminatePlayer_def checkGameEndConditions_def endGame_def prim_defs Let_def
      update_conv' set_delete split: option.splits if_splits)

lemma apart_chaseTimeout:
  "risk_chase_apart s \<Longrightarrow> risk_chase_apart (chaseTimeout s gameId a b)"
  unfolding risk_chase_apart_def
  by (auto simp add: chaseTimeout_def prim_defs Let_def update_conv' set_delete
      split: option.splits if_splits)

lemma apart_cleanupGame:
  "risk_chase_apart s \<Longrightarrow> risk_chase_apart (cleanupGame s gameId)"
  unfolding risk_chase_apart_def
  by (auto simp add: cleanupGame_def delete_conv' split: option.splits if_splits)

lemma apart_fire: "risk_chase_apart s \<Longrightarrow> risk_chase_apart (fire s k)"
proof (cases "map_of (pending s) k")
  case None
  then show "risk_chase_apart s \<Longrightarrow> risk_chase_apart (fire s k)" by (simp add: fire_def)
next
  case (Some t)
  assume c: "risk_chase_apart s"
  then have c': "risk_chase_apart (s\<lparr>pending := AList.delete k (pending s)\<rparr>)"
    by (simp add: risk_chase_apart_def)
  show "risk_chase_apart (fire s k)"
    using Some c'
    by (cases "callback t")
       (simp_all add: fire_def apart_endGame apart_eliminatePlayer
          apart_chaseTimeout apart_cleanupGame)
qed

lemma apart_step:
  assumes al: "timers_allocated s" and ap: "risk_chase_apart s"
  shows "risk_chase_apart (step a s)"
proof -
  have fresh_chase: "(k, next_handle s) \<notin> set (chaseTimers (timers x))"
    if "map_of (games s) g = Some x" for g x k
    using al that unfolding timers_allocated_alt by (metis less_irrefl)
  have fresh_risk: "(k, next_handle s) \<notin> set (eliminationRiskTimers (timers x))"
    if "map_of (games s) g = Some x" for g x k
    using al that unfolding timers_allocated_alt by (metis less_irrefl)
  note fresh = fresh_chase fresh_risk
  show ?thesis
  proof (cases a)
  case (Fire k)
  then show ?thesis using ap by (simp add: apart_fire)
next
  case (Eliminate g p r)
  then show ?thesis using ap by (simp add: apart_eliminatePlayer)
next
  case (EndGame g r)
  then show ?thesis using ap by (simp add: apart_endGame)
next
  case (Tick n)
  then show ?thesis using ap by (simp add: risk_chase_apart_def)
next
  case (GetOrCreate g st)
  then show ?thesis using ap unfolding risk_chase_apart_def
    by (auto simp add: getOrCreateGame_def new_game_def prim_defs update_conv'
        split: option.splits if_splits)
next
  case (Join sock g p n r ab)
  then show ?thesis using ap unfolding risk_chase_apart_def
    by (auto simp add: joinGame_def getOrCreateGame_def new_game_def prim_defs Let_def
        update_conv' split: option.splits if_splits)
next
  case (StartGame g d)
  then show ?thesis using ap unfolding risk_chase_apart_def
    by (auto simp add: startGameTimer_def prim_defs Let_def update_conv'
        split: option.splits if_splits)
next
  case (StartRisk g p d)
  then show ?thesis using ap fresh unfolding risk_chase_apart_def
    by (auto simp add: startEliminationRiskTimer_def prim_defs Let_def update_conv'
        dest!: snd_update_cases split: option.splits if_splits)
next
  case (StopRisk g p)
  then show ?thesis using ap unfolding risk_chase_apart_def
    by (auto simp add: stopEliminationRiskTimer_def prim_defs Let_def update_conv' set_delete
        split: option.splits if_splits)
next
  case (StartChase g h sv gh)
  then show ?thesis using ap fresh unfolding risk_chase_apart_def
    by (auto simp add: startChaseCountdown_def prim_defs Let_def update_conv'
        dest!: snd_update_cases split: option.splits if_splits)
next
  case (StopChase g h sv)
  then show ?thesis using ap unfolding risk_chase_apart_def
    by (auto simp add: stopChaseCountdown_def prim_defs Let_def update_conv' set_delete
        split: option.splits if_splits)
next
  case (Disconnect sock)
  then show ?thesis using ap unfolding risk_chase_apart_def
    by (auto simp add: disconnectPlayer_def prim_defs Let_def update_conv' set_delete
        split: option.splits if_splits)
qed
qed

lemma bindings_init: "bindings_have_games init"
  by (simp add: bindings_have_games_def init_def)

lemma bindings_endGame:
  "bindings_have_games s \<Longrightarrow> bindings_have_games (snd (endGame s gameId r))"
  unfolding bindings_have_games_def
  by (auto simp add: endGame_def prim_defs Let_def update_conv'
      split: option.splits if_splits)

lemma bindings_eliminatePlayer:
  "bindings_have_games s \<Longrightarrow> bindings_have_games (snd (eliminatePlayer s gameId pid r))"
  unfolding bindings_have_games_def
  by (auto simp add: eliminatePlayer_def checkGameEndConditions_def endGame_def prim_defs Let_def
      update_conv' split: option.splits if_splits)

lemma bindings_chaseTimeout:
  "bindings_have_games s \<Longrightarrow> bindings_have_games (chaseTimeout s gameId a b)"
  unfolding bindings_have_games_def
  by (auto simp add: chaseTimeout_def prim_defs Let_def update_conv'
      split: option.splits if_splits)

lemma bindings_cleanupGame:
  "bindings_have_games s \<Longrightarrow> bindings_have_games (cleanupGame s gameId)"
  unfolding bindings_have_games_def
  by (auto simp add: cleanupGame_def delete_conv' split: option.splits if_splits)

lemma bindings_fire: "bindings_have_games s \<Longrightarrow> bindings_have_games (fire s k)"
proof (cases "map_of (pending s) k")
  case None
  then show "bindings_have_games s \<Longrightarrow> bindings_have_games (fire s k)" by (simp add: fire_def)
next
  case (Some t)
  assume c: "bindings_have_games s"
  then have c': "bindings_have_games (s\<lparr>pending := AList.delete k (pending s)\<rparr>)"
    by (simp add: bindings_have_games_def)
  show "bindings_have_games (fire s k)"
    using Some c'
    by (cases "callback t")
       (simp_all add: fire_def bindings_endGame bindings_eliminatePlayer
          bindings_chaseTimeout bindings_cleanupGame)
qed

lemma bindings_step:
  assumes b: "bindings_have_games s"
  shows "bindings_have_games (step a s)"
proof (cases a)
  case (Fire k)
  then show ?thesis using b by (simp add: bindings_fire)
next
  case (Eliminate g p r)
  then show ?thesis using b by (simp add: bindings_eliminatePlayer)
next
  case (EndGame g r)
  then show ?thesis using b by (simp add: bindings_endGame)
next
  case (Tick n)
  then show ?thesis using b by (simp add: bindings_have_games_def)
next
  case (GetOrCreate g st)
  then show ?thesis using b unfolding bindings_have_games_def
    by (auto simp add: getOrCreateGame_def new_game_def prim_defs update_conv'
        split: option.splits if_splits)
next
  case (Join sock g p n r ab)
  then show ?thesis using b unfolding bindings_have_games_def
    by (auto simp add: joinGame_def getOrCreateGame_def new_game_def prim_defs Let_def
        update_conv' dest!: in_update_cases split: option.splits if_splits)
next
  case (StartGame g d)
  then show ?thesis using b unfolding bindings_have_games_def
    by (auto simp add: startGameTimer_def prim_defs Let_def update_conv'
        split: option.splits if_splits)
next
  case (StartRisk g p d)
  then show ?thesis using b unfolding bindings_have_games_def
    by (auto simp add: startEliminationRiskTimer_def prim_defs Let_def update_conv'
        split: option.splits if_splits)
next
  case (StopRisk g p)
  then show ?thesis using b unfolding bindings_have_games_def
    by (auto simp add: stopEliminationRiskTimer_def prim_defs Let_def update_conv'
        split: option.splits if_splits)
next
  case (StartChase g h sv gh)
  then show ?thesis using b unfolding bindings_have_games_def
    by (auto simp add: startChaseCountdown_def prim_defs Let_def update_conv'
        split: option.splits if_splits)
next
  case (StopChase g h sv)
  then show ?thesis using b unfolding bindings_have_games_def
    by (auto simp add: stopChaseCountdown_def prim_defs Let_def update_conv'
        split: option.splits if_splits)
next
  case (Disconnect sock)
  then show ?thesis using b unfolding bindings_have_games_def
    by (auto simp add: disconnectPlayer_def prim_defs Let_def update_conv' set_delete
        split: option.splits if_splits)
qed

lemma reachable_invariants:
  "timers_allocated (run as init) \<and> risk_chase_apart (run as init) \<and>
   bindings_have_games (run as init)"
proof -
  have "timers_allocated s \<and> risk_chase_apart s \<and> bindings_have_games s \<Longrightarrow>
        timers_allocated (run as s) \<and> risk_chase_apart (run as s) \<and>
        bindings_have_games (run as s)" for s
    by (induction as arbitrary: s)
       (simp_all add: timers_allocated_step apart_step bindings_step)
  then show ?thesis
    by (simp add: timers_allocated_init risk_chase_apart_init bindings_init)
qed

text \<open>The first invariant does not depend on the timer queue or on the broadcasts, and it
  survives the update \<open>eliminatePlayer\<close> makes before it evaluates the end condition: it
  holds wherever \<open>endGame\<close> is called from a timer callback or from
  \<open>checkGameEndConditions\<close>.\<close>

lemma timers_allocated_pending:
  "timers_allocated (s\<lparr>pending := q\<rparr>) = timers_allocated s"
  by (simp add: timers_allocated_def)

lemma timers_allocated_eliminated:
  assumes "timers_allocated s" and "map_of (games s) gameId = Some g"
    and "set (tracked g') \<subseteq> set (tracked g)"
  shows "timers_allocated (s\<lparr>pending := q, games := AList.update gameId g' (games s),
            emitted := e\<rparr>)"
  using assms unfolding timers_allocated_def
  by (auto simp add: update_conv' split: if_splits)

subsection \<open>The end condition after an elimination\<close>

text \<open>
  Claim C2. For a game \<open>g\<close> and a player \<open>p\<close> of it, \<open>eliminatePlayer\<close> succeeds. Let
  \<open>mid\<close> be the state once the elimination-risk timer of \<open>p\<close> is cleared, \<open>p\<close> is marked
  eliminated in \<open>g\<close> and \<open>player_eliminated\<close> is broadcast. If the game is \<open>playing\<close> and no
  player of it has then role \<open>survivor\<close> and a status other than \<open>eliminated\<close>, the result
  is the state that \<open>endGame(g, 'all_survivors_eliminated')\<close> gives from \<open>mid\<close> (status
  \<open>ended\<close>, timers cleared, clean-up armed, \<open>game_ended\<close> broadcast); otherwise the result
  is \<open>mid\<close> itself. The two differ, so \<open>endGame\<close> is triggered if and only if the condition
  holds.
\<close>

theorem eliminatePlayer_triggers_endGame_iff:
  assumes "map_of (games s) gameId = Some g" and "map_of (players g) pid = Some p"
    and "p' = p\<lparr>status := Eliminated, eliminatedAt := Some (now s),
                  eliminationReason := Some (reason_or_unknown reason)\<rparr>"
    and "g' = g\<lparr>timers := (timers g)\<lparr>eliminationRiskTimers :=
                    (case map_of (eliminationRiskTimers (timers g)) pid of
                       Some h \<Rightarrow> AList.delete pid (eliminationRiskTimers (timers g))
                     | None \<Rightarrow> eliminationRiskTimers (timers g))\<rparr>,
                  players := AList.update pid p' (players g)\<rparr>"
    and "mid = s\<lparr>pending := (case map_of (eliminationRiskTimers (timers g)) pid of
                                Some h \<Rightarrow> AList.delete h (pending s) | None \<Rightarrow> pending s),
                   games := AList.update gameId g' (games s),
                   emitted := emitted s @
                     [PlayerEliminated gameId pid (reason_or_unknown reason) (now s)]\<rparr>"
  shows "fst (eliminatePlayer s gameId pid reason) \<and>
     snd (eliminatePlayer s gameId pid reason) =
       (if game_status g = Playing \<and>
           length (filter (\<lambda>q. role q = ''survivor'' \<and> status q \<noteq> Eliminated)
                     (map snd (players g'))) = 0
        then snd (endGame mid gameId (Some ''all_survivors_eliminated''))
        else mid) \<and>
     snd (endGame mid gameId (Some ''all_survivors_eliminated'')) \<noteq> mid \<and>
     emitted (snd (eliminatePlayer s gameId pid reason)) =
       emitted s @ PlayerEliminated gameId pid (reason_or_unknown reason) (now s) #
         (if game_status g = Playing \<and>
             length (filter (\<lambda>q. role q = ''survivor'' \<and> status q \<noteq> Eliminated)
                       (map snd (players g'))) = 0
          then [GameEnded gameId (Some ''all_survivors_eliminated'') (now s)] else [])"
proof -
  have mid_game: "map_of (games mid) gameId = Some g'"
    using assms by (simp add: update_conv')
  have ne: "snd (endGame mid gameId (Some ''all_survivors_eliminated'')) \<noteq> mid"
  proof
    assume "snd (endGame mid gameId (Some ''all_survivors_eliminated'')) = mid"
    then have "emitted (snd (endGame mid gameId (Some ''all_survivors_eliminated''))) = emitted mid"
      by simp
    with mid_game show False
      by (simp add: endGame_def prim_defs Let_def split: option.splits)
  qed
  have res: "snd (eliminatePlayer s gameId pid reason) =
       (if game_status g = Playing \<and>
           length (filter (\<lambda>q. role q = ''survivor'' \<and> status q \<noteq> Eliminated)
                     (map snd (players g'))) = 0
        then snd (endGame mid gameId (Some ''all_survivors_eliminated''))
        else mid)"
    using assms
    by (auto simp add: eliminatePlayer_def checkGameEndConditions_def aliveSurvivors_def
        clearTimeout_def emit_def set_game_def Let_def update_conv' split: option.splits)
  have fst: "fst (eliminatePlayer s gameId pid reason)"
    using assms by (simp add: eliminatePlayer_def Let_def)
  have em: "emitted (snd (endGame mid gameId (Some ''all_survivors_eliminated''))) =
      emitted mid @ [GameEnded gameId (Some ''all_survivors_eliminated'') (now s)]"
    using mid_game assms(5) by (simp add: endGame_def prim_defs Let_def split: option.splits)
  have emid: "emitted mid =
     emitted s @ [PlayerEliminated gameId pid (reason_or_unknown reason) (now s)]"
    using assms(5) by simp
  show ?thesis
    using fst res ne em emid by simp
qed

theorem eliminatePlayer_triggers_endGame_iff_witness:
  "map_of (games playing) ''g'' = Some playing_game \<and>
   map_of (players playing_game) ''p'' = Some example_player \<and>
   fst (eliminatePlayer playing ''g'' ''p'' (Some ''manual'')) \<and>
   snd (eliminatePlayer playing ''g'' ''p'' (Some ''manual'')) =
     snd (endGame
       (playing\<lparr>games := [(''g'', playing_game\<lparr>players :=
            [(''p'', example_player\<lparr>status := Eliminated, eliminatedAt := Some 0,
                      eliminationReason := Some ''manual''\<rparr>)]\<rparr>)],
          emitted := [GameTimerStarted ''g'' 600000 0 600000,
                      PlayerEliminated ''g'' ''p'' ''manual'' 0]\<rparr>)
       ''g'' (Some ''all_survivors_eliminated'')) \<and>
   map (game_status \<circ> snd) (games (snd (eliminatePlayer playing ''g'' ''p'' (Some ''manual'')))) =
     [Ended] \<and>
   map (callback \<circ> snd) (pending (snd (eliminatePlayer playing ''g'' ''p'' (Some ''manual'')))) =
     [CbCleanupGame ''g''] \<and>
   emitted (snd (eliminatePlayer playing ''g'' ''p'' (Some ''manual''))) =
     [GameTimerStarted ''g'' 600000 0 600000, PlayerEliminated ''g'' ''p'' ''manual'' 0,
      GameEnded ''g'' (Some ''all_survivors_eliminated'') 0]"
proof -
  have st: "map (game_status \<circ> snd)
       (games (snd (eliminatePlayer playing ''g'' ''p'' (Some ''manual'')))) = [Ended]"
    by code_simp
  have pe: "map (callback \<circ> snd)
       (pending (snd (eliminatePlayer playing ''g'' ''p'' (Some ''manual'')))) =
     [CbCleanupGame ''g'']"
    by code_simp
  have em: "emitted (snd (eliminatePlayer playing ''g'' ''p'' (Some ''manual''))) =
     [GameTimerStarted ''g'' 600000 0 600000, PlayerEliminated ''g'' ''p'' ''manual'' 0,
      GameEnded ''g'' (Some ''all_survivors_eliminated'') 0]"
    by code_simp
  have pl: "games playing = [(''g'', playing_game)]"
    by code_simp
  note t = eliminatePlayer_triggers_endGame_iff
          [OF playing_has_game example_game_has_player(2) refl refl refl, of "Some ''manual''"]
  have f: "fst (eliminatePlayer playing ''g'' ''p'' (Some ''manual''))"
    using t by simp
  have eq: "snd (eliminatePlayer playing ''g'' ''p'' (Some ''manual'')) =
     snd (endGame
       (playing\<lparr>games := [(''g'', playing_game\<lparr>players :=
            [(''p'', example_player\<lparr>status := Eliminated, eliminatedAt := Some 0,
                      eliminationReason := Some ''manual''\<rparr>)]\<rparr>)],
          emitted := [GameTimerStarted ''g'' 600000 0 600000,
                      PlayerEliminated ''g'' ''p'' ''manual'' 0]\<rparr>)
       ''g'' (Some ''all_survivors_eliminated''))"
    using t pl
    by (simp add: playing_obs reason_or_unknown_def playing_game_def joined_game_def
        example_player_def)
  show ?thesis
    by (intro conjI playing_has_game example_game_has_player(2) f eq st pe em)
qed

subsection \<open>The elimination record of a player\<close>

text \<open>
  Claim C9 says that \<open>eliminatedAt\<close> and \<open>eliminationReason\<close> are written once and that a
  second \<open>eliminatePlayer\<close> for an eliminated player leaves them alone. The method has no
  guard on the player's status: eliminating \<open>p\<close> at time 0 for reason \<open>first\<close> and again at
  time 5 for reason \<open>second\<close> leaves the second time and the second reason.
\<close>

theorem second_elimination_overwrites:
  "map (\<lambda>(k, p). (eliminatedAt p, eliminationReason p))
     (concat (map (players \<circ> snd)
        (games (run [Eliminate ''g'' ''p'' (Some ''first'')] joined)))) =
     [(Some 0, Some ''first'')] \<and>
   map (\<lambda>(k, p). (eliminatedAt p, eliminationReason p))
     (concat (map (players \<circ> snd)
        (games (run [Eliminate ''g'' ''p'' (Some ''first''), Tick 5,
                     Eliminate ''g'' ''p'' (Some ''second'')] joined)))) =
     [(Some 5, Some ''second'')]"
  by code_simp

text \<open>
  Claim C9, amended. Every \<open>eliminatePlayer\<close> call that finds the game and the player,
  whatever the player's status and earlier record, leaves the player \<open>eliminated\<close> with
  \<open>eliminatedAt\<close> the time of this call and \<open>eliminationReason\<close> the reason of this call
  (\<open>unknown\<close> when none is given).
\<close>

theorem eliminatePlayer_writes_fields:
  assumes "map_of (games s) gameId = Some g" and "map_of (players g) pid = Some p"
  shows "\<exists>g' p'. map_of (games (snd (eliminatePlayer s gameId pid reason))) gameId = Some g' \<and>
     map_of (players g') pid = Some p' \<and> status p' = Eliminated \<and>
     eliminatedAt p' = Some (now s) \<and>
     eliminationReason p' = Some (case reason of None \<Rightarrow> ''unknown'' | Some r \<Rightarrow> r)"
  using assms
  by (simp add: eliminatePlayer_def checkGameEndConditions_def aliveSurvivors_def endGame_def
      reason_or_unknown_def prim_defs Let_def update_conv' split: option.splits)

theorem eliminatePlayer_writes_fields_witness:
  "map_of (games joined) ''g'' = Some joined_game \<and>
   map_of (players joined_game) ''p'' = Some example_player \<and>
   (\<exists>g' p'. map_of (games (snd (eliminatePlayer joined ''g'' ''p'' None))) ''g'' = Some g' \<and>
     map_of (players g') ''p'' = Some p' \<and> status p' = Eliminated \<and>
     eliminatedAt p' = Some 0 \<and> eliminationReason p' = Some ''unknown'')"
  using eliminatePlayer_writes_fields [OF joined_has_game example_game_has_player(1), of None]
        joined_has_game example_game_has_player(1)
  by (simp add: joined_eq)

subsection \<open>The settings of a new game\<close>

text \<open>
  Claim C5 says that a new game always has \<open>mercenaryMultiplier = 3.0\<close>. The literal writes
  \<open>3.0\<close> first and spreads the caller's settings after it, so a supplied
  \<open>mercenaryMultiplier\<close> of 5 is what the game gets.
\<close>

theorem getOrCreateGame_multiplier_overridable:
  "mercenaryMultiplier (game_settings (fst (getOrCreateGame init ''g''
      (no_settings\<lparr>arg_mercenaryMultiplier := Some 5\<rparr>)))) = 5 \<and>
   mercenaryMultiplier (game_settings (fst (getOrCreateGame init ''g''
      (no_settings\<lparr>arg_mercenaryMultiplier := Some 5\<rparr>)))) \<noteq> 3"
  by (simp add: getOrCreateGame_def example_defs)

text \<open>
  Claim C5, amended. When \<open>getOrCreateGame\<close> builds a game (none is registered under the
  id), the game's \<open>mercenaryMultiplier\<close> is the one in the supplied settings when they
  have one and \<open>3.0\<close> otherwise, and that game is the one registered.
\<close>

theorem getOrCreateGame_mercenaryMultiplier:
  "map_of (games s) gameId = None \<Longrightarrow>
   mercenaryMultiplier (game_settings (fst (getOrCreateGame s gameId a))) =
     (case arg_mercenaryMultiplier a of None \<Rightarrow> 3 | Some m \<Rightarrow> m) \<and>
   map_of (games (snd (getOrCreateGame s gameId a))) gameId =
     Some (fst (getOrCreateGame s gameId a))"
  by (simp add: getOrCreateGame_def new_game_def build_settings_def spread_def set_game_def
      update_conv' split: option.splits)

theorem getOrCreateGame_mercenaryMultiplier_witness:
  "map_of (games init) ''g'' = None \<and>
   mercenaryMultiplier (game_settings (fst (getOrCreateGame init ''g'' no_settings))) = 3 \<and>
   map_of (games (snd (getOrCreateGame init ''g'' no_settings))) ''g'' =
     Some (fst (getOrCreateGame init ''g'' no_settings))"
proof -
  have h: "map_of (games init) ''g'' = None" by (simp add: init_def)
  show ?thesis
    using h getOrCreateGame_mercenaryMultiplier [OF h, of no_settings]
    by (simp add: no_settings_def)
qed

subsection \<open>Cancelled timers\<close>

text \<open>
  Started and stopped at once: \<open>startEliminationRiskTimer(g, p, d)\<close> arms the callback
  \<open>eliminatePlayer(g, p, 'elimination_risk_timeout')\<close> under a new handle; the
  \<open>stopEliminationRiskTimer(g, p)\<close> that follows returns true, and that handle is never
  executed afterwards.
\<close>

lemma start_then_stop_never_fires:
  assumes "map_of (games s) gameId = Some g" and "map_of (players g) pid = Some p"
  shows "\<exists>t. (next_handle s, t) \<in> set (pending (snd (startEliminationRiskTimer s gameId pid d))) \<and>
       callback t = CbEliminatePlayer gameId pid \<and>
       fst (stopEliminationRiskTimer (snd (startEliminationRiskTimer s gameId pid d)) gameId pid) \<and>
       \<not> executes post
           (snd (stopEliminationRiskTimer (snd (startEliminationRiskTimer s gameId pid d)) gameId pid))
           (next_handle s)"
proof -
  let ?s1 = "snd (startEliminationRiskTimer s gameId pid d)"
  let ?s2 = "snd (stopEliminationRiskTimer ?s1 gameId pid)"
  have "cancelled ?s2 (next_handle s)"
    using assms
    by (simp add: cancelled_def startEliminationRiskTimer_def stopEliminationRiskTimer_def
        prim_defs Let_def update_conv' delete_conv' split: option.splits)
  then have "\<not> executes post ?s2 (next_handle s)"
    by (rule cancelled_never_executes)
  moreover have "\<exists>t. (next_handle s, t) \<in> set (pending ?s1) \<and>
       callback t = CbEliminatePlayer gameId pid \<and> fst (stopEliminationRiskTimer ?s1 gameId pid)"
    using assms
    by (auto simp add: startEliminationRiskTimer_def stopEliminationRiskTimer_def
        prim_defs Let_def update_conv' split: option.splits)
  ultimately show ?thesis by blast
qed

text \<open>
  Claim C1. In every state the server can reach, if \<open>stopEliminationRiskTimer(g, p)\<close>
  returns true, then game \<open>g\<close> held an elimination-risk timer for \<open>p\<close> (the handle stored
  by the last \<open>startEliminationRiskTimer(g, p)\<close>), and the callback of that timer is never
  executed afterwards, whatever calls and timer firings follow.
\<close>

theorem stopped_risk_timer_never_fires:
  assumes "fst (stopEliminationRiskTimer (run pre init) gameId pid)"
  shows "\<exists>g h. map_of (games (run pre init)) gameId = Some g \<and>
     map_of (eliminationRiskTimers (timers g)) pid = Some h \<and>
     (\<forall>post. \<not> executes post (snd (stopEliminationRiskTimer (run pre init) gameId pid)) h)"
proof -
  let ?s = "run pre init"
  from assms obtain g h where g: "map_of (games ?s) gameId = Some g"
    and h: "map_of (eliminationRiskTimers (timers g)) pid = Some h"
    by (auto simp add: stopEliminationRiskTimer_def split: option.splits)
  from h have "h \<in> set (tracked g)"
    by (force simp add: set_tracked dest: map_of_SomeD)
  with g have "h < next_handle ?s"
    using reachable_invariants [of pre] by (blast intro: allocD)
  with g h have "cancelled (snd (stopEliminationRiskTimer ?s gameId pid)) h"
    by (simp add: cancelled_def stopEliminationRiskTimer_def prim_defs Let_def delete_conv')
  then have "\<forall>post. \<not> executes post (snd (stopEliminationRiskTimer ?s gameId pid)) h"
    by (simp add: cancelled_never_executes)
  with g h show ?thesis by blast
qed

theorem stopped_risk_timer_never_fires_witness:
  "fst (stopEliminationRiskTimer busy ''g'' ''p'') \<and>
   map_of (games busy) ''g'' = Some busy_game \<and>
   map_of (eliminationRiskTimers (timers busy_game)) ''p'' = Some 1 \<and>
   \<not> executes [Fire 1] (snd (stopEliminationRiskTimer busy ''g'' ''p'')) 1"
proof -
  have r: "fst (stopEliminationRiskTimer busy ''g'' ''p'')" by code_simp
  have t: "map_of (eliminationRiskTimers (timers busy_game)) ''p'' = Some 1"
    by (simp add: busy_game_def)
  from stopped_risk_timer_never_fires [OF r [unfolded busy_def]]
  show ?thesis using r t busy_has_game by (auto simp add: busy_def)
qed

subsection \<open>The timers of an ended game\<close>

text \<open>
  Claim C3 says that after \<open>endGame\<close> returns no timer callback armed before and belonging
  to the game executes any more. \<open>endGame\<close> itself arms the deferred \<open>cleanupGame\<close> of the
  game and nothing clears it: when \<open>endGame\<close> is called on a game that was ended before,
  the clean-up timer of the first call (handle 0) is armed before the call and still
  executes after it. Nor does \<open>cleanupGame\<close> clear the timers armed during the grace
  period: in the state \<open>reopened\<close> the elimination timer of \<open>p\<close> (handle 1) has outlived
  its game object, is in no collection of the new game \<open>g\<close>, and still executes
  \<open>eliminatePlayer(g, p)\<close> after \<open>endGame\<close> of the new game.
\<close>

theorem cleanup_timer_survives_endGame:
  "map_of (pending (run [EndGame ''g'' None] joined)) 0 =
     Some \<lparr>callback = CbCleanupGame ''g'', delay = 300000\<rparr> \<and>
   executes [Fire 0] (snd (endGame (run [EndGame ''g'' None] joined) ''g'' None)) 0 \<and>
   map_of (pending reopened) 1 =
     Some \<lparr>callback = CbEliminatePlayer ''g'' ''p'', delay = 300000\<rparr> \<and>
   executes [Fire 1] (snd (endGame reopened ''g'' None)) 1"
  by code_simp

text \<open>
  Claim C3, amended. In every state in which each handle held by a game was issued by
  \<open>setTimeout\<close> (every state the server reaches, and every state in which a timer
  callback or \<open>checkGameEndConditions\<close> calls \<open>endGame\<close>: see \<open>reachable_invariants\<close>,
  \<open>timers_allocated_pending\<close> and \<open>timers_allocated_eliminated\<close>), \<open>endGame\<close> on a
  registered game \<open>g\<close> succeeds and leaves the game timer unset and both timer maps of
  \<open>g\<close> empty, and no timer that \<open>g\<close> held in these three collections at the call is ever
  executed afterwards. The deferred clean-up timer that \<open>endGame\<close> arms is not in these
  collections and is left pending.
\<close>

theorem endGame_cancels_tracked_timers:
  assumes "timers_allocated s" and "map_of (games s) gameId = Some g"
  shows "fst (endGame s gameId reason) \<and>
     (\<exists>g'. map_of (games (snd (endGame s gameId reason))) gameId = Some g' \<and>
        gameTimer (timers g') = None \<and> eliminationRiskTimers (timers g') = [] \<and>
        chaseTimers (timers g') = []) \<and>
     (\<forall>h \<in> set (tracked g). \<forall>post.
        \<not> executes post (snd (endGame s gameId reason)) h) \<and>
     (next_handle s, \<lparr>callback = CbCleanupGame gameId, delay = 300000\<rparr>)
       \<in> set (pending (snd (endGame s gameId reason)))"
proof -
  have "cancelled (snd (endGame s gameId reason)) h" if "h \<in> set (tracked g)" for h
  proof -
    from that assms have "h < next_handle s"
      by (blast intro: allocD)
    with that assms(2) show ?thesis
      by (auto simp add: cancelled_iff endGame_def prim_defs Let_def set_tracked AList.delete_eq
          split: option.splits)
         (force simp add: image_iff)+
  qed
  then have "\<forall>h \<in> set (tracked g). \<forall>post. \<not> executes post (snd (endGame s gameId reason)) h"
    by (simp add: cancelled_never_executes)
  moreover have "fst (endGame s gameId reason) \<and>
     (\<exists>g'. map_of (games (snd (endGame s gameId reason))) gameId = Some g' \<and>
        gameTimer (timers g') = None \<and> eliminationRiskTimers (timers g') = [] \<and>
        chaseTimers (timers g') = [])"
    using assms(2) by (simp add: endGame_def prim_defs Let_def update_conv')
  moreover have "(next_handle s, \<lparr>callback = CbCleanupGame gameId, delay = 300000\<rparr>)
       \<in> set (pending (snd (endGame s gameId reason)))"
    using assms(2) by (simp add: endGame_def prim_defs Let_def split: option.splits)
  ultimately show ?thesis by blast
qed

theorem endGame_cancels_tracked_timers_witness:
  "timers_allocated busy \<and>
   map_of (games busy) ''g'' = Some busy_game \<and> tracked busy_game = [0, 1, 2] \<and>
   fst (endGame busy ''g'' (Some ''manual'')) \<and>
   \<not> executes [Fire 0, Fire 1, Fire 2] (snd (endGame busy ''g'' (Some ''manual''))) 1 \<and>
   (3, \<lparr>callback = CbCleanupGame ''g'', delay = 300000\<rparr>)
     \<in> set (pending (snd (endGame busy ''g'' (Some ''manual''))))"
proof -
  have a: "timers_allocated busy"
    unfolding busy_def using reachable_invariants by blast
  have t: "tracked busy_game = [0, 1, 2]" by code_simp
  have n: "next_handle busy = 3" by code_simp
  from endGame_cancels_tracked_timers [OF a busy_has_game, of "Some ''manual''"]
  show ?thesis using a t n busy_has_game by auto
qed

subsection \<open>Disconnecting\<close>

text \<open>
  Claim C10. In every state the server can reach, \<open>disconnectPlayer\<close> on a socket without
  binding changes nothing. On a socket bound to player \<open>p\<close> of game \<open>g\<close> the game is
  registered, and the call removes \<open>p\<close> from the players and from the elimination-risk
  timers of \<open>g\<close> and changes nothing else in \<open>g\<close> or in any other game; the
  elimination-risk timer of \<open>p\<close>, if any, is no longer pending and never executes; every
  other timer, in particular every chase timer of \<open>g\<close>, is as pending as before; the only
  broadcast is \<open>player_disconnected\<close> (no end-condition evaluation: the status is
  unchanged and no \<open>game_ended\<close> is sent); the binding of the socket is removed and no other.
\<close>

theorem disconnectPlayer_effect:
  assumes "s = run pre init"
  shows "case map_of (server_players s) sock of
      None \<Rightarrow> disconnectPlayer s sock = s
    | Some b \<Rightarrow>
        (\<exists>g g'. map_of (games s) (b_gameId b) = Some g \<and>
           g' = g\<lparr>players := AList.delete (b_playerId b) (players g),
                  timers := (timers g)\<lparr>eliminationRiskTimers :=
                    AList.delete (b_playerId b) (eliminationRiskTimers (timers g))\<rparr>\<rparr> \<and>
           games (disconnectPlayer s sock) = AList.update (b_gameId b) g' (games s) \<and>
           map_of (players g') (b_playerId b) = None \<and>
           map_of (eliminationRiskTimers (timers g')) (b_playerId b) = None \<and>
           (\<forall>h. map_of (eliminationRiskTimers (timers g)) (b_playerId b) = Some h \<longrightarrow>
                map_of (pending (disconnectPlayer s sock)) h = None \<and>
                (\<forall>post. \<not> executes post (disconnectPlayer s sock) h)) \<and>
           (\<forall>h. map_of (eliminationRiskTimers (timers g)) (b_playerId b) \<noteq> Some h \<longrightarrow>
                map_of (pending (disconnectPlayer s sock)) h = map_of (pending s) h) \<and>
           chaseTimers (timers g') = chaseTimers (timers g) \<and>
           (\<forall>(k, h) \<in> set (chaseTimers (timers g)).
                map_of (pending (disconnectPlayer s sock)) h = map_of (pending s) h) \<and>
           game_status g' = game_status g \<and>
           emitted (disconnectPlayer s sock) =
             emitted s @ [PlayerDisconnected (b_gameId b) (b_playerId b) (now s)] \<and>
           server_players (disconnectPlayer s sock) = AList.delete sock (server_players s) \<and>
           next_handle (disconnectPlayer s sock) = next_handle s \<and>
           now (disconnectPlayer s sock) = now s)"
proof (cases "map_of (server_players s) sock")
  case None
  then show ?thesis by (simp add: disconnectPlayer_def)
next
  case (Some b)
  have inv: "timers_allocated s" "risk_chase_apart s" "bindings_have_games s"
    using reachable_invariants [of pre] assms by simp_all
  from Some have "(sock, b) \<in> set (server_players s)" by (rule map_of_SomeD)
  with inv(3) obtain g where g: "map_of (games s) (b_gameId b) = Some g"
    by (auto simp add: bindings_have_games_def)
  have canc: "cancelled (disconnectPlayer s sock) h"
    if "map_of (eliminationRiskTimers (timers g)) (b_playerId b) = Some h" for h
  proof -
    from that have "h \<in> set (tracked g)" by (force simp add: set_tracked dest: map_of_SomeD)
    with g inv(1) have "h < next_handle s" by (blast intro: allocD)
    with that g Some show ?thesis
      by (simp add: cancelled_def disconnectPlayer_def prim_defs Let_def delete_conv')
  qed
  have chase: "map_of (pending (disconnectPlayer s sock)) h = map_of (pending s) h"
    if "(k, h) \<in> set (chaseTimers (timers g))" for k h
  proof (cases "map_of (eliminationRiskTimers (timers g)) (b_playerId b)")
    case None
    with g Some show ?thesis by (simp add: disconnectPlayer_def prim_defs Let_def)
  next
    case (Some hr)
    then have "(b_playerId b, hr) \<in> set (eliminationRiskTimers (timers g))"
      by (rule map_of_SomeD)
    with that g inv(2) have "h \<noteq> hr" by (auto simp add: risk_chase_apart_def)
    with g Some \<open>map_of (server_players s) sock = Some b\<close> show ?thesis
      by (simp add: disconnectPlayer_def prim_defs Let_def delete_conv')
  qed
  let ?s' = "disconnectPlayer s sock"
  let ?g' = "g\<lparr>players := AList.delete (b_playerId b) (players g),
                  timers := (timers g)\<lparr>eliminationRiskTimers :=
                    AList.delete (b_playerId b) (eliminationRiskTimers (timers g))\<rparr>\<rparr>"
  have frame: "games ?s' = AList.update (b_gameId b) ?g' (games s) \<and>
      map_of (players ?g') (b_playerId b) = None \<and>
      map_of (eliminationRiskTimers (timers ?g')) (b_playerId b) = None \<and>
      chaseTimers (timers ?g') = chaseTimers (timers g) \<and>
      game_status ?g' = game_status g \<and>
      emitted ?s' = emitted s @ [PlayerDisconnected (b_gameId b) (b_playerId b) (now s)] \<and>
      server_players ?s' = AList.delete sock (server_players s) \<and>
      next_handle ?s' = next_handle s \<and> now ?s' = now s"
    using Some g
    by (simp add: disconnectPlayer_def prim_defs Let_def delete_conv' split: option.splits)
  have c1: "\<forall>h. map_of (eliminationRiskTimers (timers g)) (b_playerId b) = Some h \<longrightarrow>
      map_of (pending ?s') h = None \<and> (\<forall>post. \<not> executes post ?s' h)"
    using canc by (auto simp add: cancelled_def cancelled_never_executes)
  have c2: "\<forall>h. map_of (eliminationRiskTimers (timers g)) (b_playerId b) \<noteq> Some h \<longrightarrow>
      map_of (pending ?s') h = map_of (pending s) h"
    using Some g
    by (auto simp add: disconnectPlayer_def prim_defs Let_def delete_conv' split: option.splits)
  have c3: "\<forall>(k, h) \<in> set (chaseTimers (timers g)).
      map_of (pending ?s') h = map_of (pending s) h"
    using chase by auto
  show ?thesis
    using g frame c1 c2 c3 by (simp add: Some)
qed

theorem disconnectPlayer_effect_witness:
  "map_of (server_players busy) ''s1'' = Some example_binding \<and>
   emitted (disconnectPlayer busy ''s1'') = emitted busy @ [PlayerDisconnected ''g'' ''p'' 0] \<and>
   map_of (pending (disconnectPlayer busy ''s1'')) 1 = None \<and>
   \<not> executes [Fire 1] (disconnectPlayer busy ''s1'') 1 \<and>
   map_of (pending (disconnectPlayer busy ''s1'')) 2 =
     Some \<lparr>callback = CbChaseTimeout ''g'' ''h'' ''p'', delay = 5000\<rparr> \<and>
   server_players (disconnectPlayer busy ''s1'') = []"
proof -
  have sp: "server_players busy = [(''s1'', example_binding)]" by code_simp
  from disconnectPlayer_effect [OF busy_def, of "''s1''"]
  show ?thesis
    using busy_binding busy_has_game busy_obs sp
    by (auto simp add: example_binding_def busy_game_def)
qed

subsection \<open>The armed elimination-risk duration\<close>




subsection \<open>Leaving the status \<open>ended\<close>\<close>

text \<open>
  Claim C6 says that no operation takes a game out of \<open>ended\<close>. \<open>startGameTimer\<close> sets
  \<open>status = 'playing'\<close> without looking at the status: started after \<open>endGame\<close>, the game
  is \<open>playing\<close> again.
\<close>

theorem startGameTimer_leaves_ended:
  "map (game_status \<circ> snd) (games ended) = [Ended] \<and>
   map (game_status \<circ> snd) (games (snd (startGameTimer ended ''g'' None))) = [Playing]"
  by code_simp

text \<open>
  Claim C6, amended. A game whose status is \<open>ended\<close> is still \<open>ended\<close>, or has been
  removed by its clean-up, after any public call or timer firing other than
  \<open>startGameTimer\<close> on that game; \<open>startGameTimer\<close> on it sets the status to \<open>playing\<close>.
\<close>

theorem ended_left_only_by_restart:
  assumes "map_of (games s) gameId = Some g" and "game_status g = Ended"
  shows "((\<forall>d. a \<noteq> StartGame gameId d) \<longrightarrow>
           (case map_of (games (step a s)) gameId of None \<Rightarrow> True
            | Some g' \<Rightarrow> game_status g' = Ended)) \<and>
         (\<exists>g'. map_of (games (step (StartGame gameId d) s)) gameId = Some g' \<and>
            game_status g' = Playing)"
proof (intro conjI impI)
  show "\<exists>g'. map_of (games (step (StartGame gameId d) s)) gameId = Some g' \<and>
            game_status g' = Playing"
    using assms by (simp add: startGameTimer_def prim_defs Let_def update_conv' split: option.splits)
next
  assume ns: "\<forall>d. a \<noteq> StartGame gameId d"
  show "case map_of (games (step a s)) gameId of None \<Rightarrow> True
            | Some g' \<Rightarrow> game_status g' = Ended"
  proof (cases a)
    case (Fire h)
    show ?thesis
    proof (cases "map_of (pending s) h")
      case None
      then show ?thesis using assms Fire by (simp add: fire_def)
    next
      case (Some t)
      then show ?thesis using assms Fire
        by (cases "callback t")
           (auto simp add: op_defs aliveSurvivors_def prim_defs Let_def update_conv' delete_conv'
             split: option.splits if_splits)
    qed
  qed (use assms ns in \<open>auto simp add: op_defs aliveSurvivors_def new_game_def prim_defs Let_def
         update_conv' delete_conv' split: option.splits if_splits\<close>)
qed

theorem ended_left_only_by_restart_witness:
  "map_of (games ended) ''g'' = Some ended_game \<and> game_status ended_game = Ended \<and>
   (case map_of (games (step (Eliminate ''g'' ''p'' None) ended)) ''g'' of None \<Rightarrow> True
    | Some g' \<Rightarrow> game_status g' = Ended) \<and>
   (\<exists>g'. map_of (games (step (StartGame ''g'' None) ended)) ''g'' = Some g' \<and>
      game_status g' = Playing)"
proof -
  have e: "game_status ended_game = Ended" by (simp add: ended_game_def)
  from ended_left_only_by_restart [OF ended_has_game e, of "Eliminate ''g'' ''p'' None" None]
  show ?thesis using ended_has_game e by simp
qed

subsection \<open>The key of a chase timer\<close>

text \<open>
  Claim C7: distinct ordered pairs (hunter, survivor) have distinct chase-timer keys.
  The key is the two ids joined by an underscore, so ids that contain an underscore
  collide: the pairs \<open>(x_x, x)\<close> and \<open>(x, x_x)\<close> both have the key \<open>x_x_x\<close>, and starting the
  chase of the second pair clears the pending timer of the first.
\<close>

theorem timerKey_collision:
  "timerKey ''x_x'' ''x'' = timerKey ''x'' ''x_x'' \<and>
   map (callback \<circ> snd)
     (pending (run [StartChase ''g'' ''x_x'' ''x'' False] joined)) =
     [CbChaseTimeout ''g'' ''x_x'' ''x''] \<and>
   map (callback \<circ> snd)
     (pending (run [StartChase ''g'' ''x_x'' ''x'' False, StartChase ''g'' ''x'' ''x_x'' False] joined)) =
     [CbChaseTimeout ''g'' ''x'' ''x_x'']"
  by code_simp

subsection \<open>What the operations return\<close>

text \<open>
  Claim C8 says that the results tell the failure reasons apart.
  \<open>startEliminationRiskTimer\<close> returns the same \<open>false\<close> when the game is absent and when
  the game is there and the player is absent.
\<close>

theorem failure_reasons_not_discriminated:
  "map_of (games init) ''g'' = None \<and>
   map_of (games (run [GetOrCreate ''g'' no_settings] init)) ''g'' \<noteq> None \<and>
   fst (startEliminationRiskTimer init ''g'' ''p'' None) =
   fst (startEliminationRiskTimer (run [GetOrCreate ''g'' no_settings] init) ''g'' ''p'' None)"
  by code_simp

text \<open>
  Claim C8, amended. Each of the seven operations returns a bare boolean: true exactly
  when the game exists (\<open>startGameTimer\<close>, \<open>startChaseCountdown\<close>, \<open>endGame\<close>), when the game
  and the player exist (\<open>startEliminationRiskTimer\<close>, \<open>eliminatePlayer\<close>), or when the game
  exists and holds the timer to stop (\<open>stopEliminationRiskTimer\<close>, \<open>stopChaseCountdown\<close>);
  false otherwise, whatever the reason.
\<close>

theorem operations_return_booleans:
  "fst (startGameTimer s gameId d) = (map_of (games s) gameId \<noteq> None) \<and>
   fst (startEliminationRiskTimer s gameId pid d) =
     (\<exists>g. map_of (games s) gameId = Some g \<and> map_of (players g) pid \<noteq> None) \<and>
   fst (stopEliminationRiskTimer s gameId pid) =
     (\<exists>g. map_of (games s) gameId = Some g \<and>
        map_of (eliminationRiskTimers (timers g)) pid \<noteq> None) \<and>
   fst (startChaseCountdown s gameId hunterId survivorId ghost) = (map_of (games s) gameId \<noteq> None) \<and>
   fst (stopChaseCountdown s gameId hunterId survivorId) =
     (\<exists>g. map_of (games s) gameId = Some g \<and>
        map_of (chaseTimers (timers g)) (timerKey hunterId survivorId) \<noteq> None) \<and>
   fst (eliminatePlayer s gameId pid reason) =
     (\<exists>g. map_of (games s) gameId = Some g \<and> map_of (players g) pid \<noteq> None) \<and>
   fst (endGame s gameId reason') = (map_of (games s) gameId \<noteq> None)"
  by (auto simp add: op_defs setTimeout_def Let_def split: option.splits prod.splits)

end
